theory Spec2Isabelle
  imports Main "HOL-Library.Sublist"
begin

section \<open>The GUI data model (cmd/main.go)\<close>

text \<open>
  \<^verbatim>\<open>type TableRow struct { File, Comment, Ago, Icon string }\<close> and
  \<^verbatim>\<open>type GuiData struct { Title string; Unwatch, Star, Fork, Commits, Branch, Release,
  Contributor int; RowsInTable []TableRow }\<close>. The counters are Go \<^verbatim>\<open>int\<close>s; the program
  only stores small literals in them, so they are modelled as \<^typ>\<open>int\<close>.
\<close>

record TableRow =
  File :: string
  Comment :: string
  Ago :: string
  Icon :: string

record GuiData =
  Title :: string
  Unwatch :: int
  Star :: int
  Fork :: int
  Commits :: int
  Branch :: int
  Release :: int
  Contributor :: int
  RowsInTable :: "TableRow list"

text \<open>
  A composite literal that leaves a field out gives that field the zero value of its
  type. \<open>GuiData_zero\<close> is the all-zero struct a literal starts from.
\<close>

definition GuiData_zero :: GuiData where
  "GuiData_zero =
     \<lparr>Title = [], Unwatch = 0, Star = 0, Fork = 0, Commits = 0, Branch = 0,
      Release = 0, Contributor = 0, RowsInTable = []\<rparr>"

text \<open>\<^verbatim>\<open>TableRow{f, c, a, i}\<close>: the positional composite literal.\<close>

definition mkTableRow :: "string \<Rightarrow> string \<Rightarrow> string \<Rightarrow> string \<Rightarrow> TableRow" where
  "mkTableRow f c a i = \<lparr>File = f, Comment = c, Ago = a, Icon = i\<rparr>"

text \<open>\<^verbatim>\<open>guiData.RowsInTable = append(guiData.RowsInTable, row)\<close>\<close>

definition appendRow :: "GuiData \<Rightarrow> TableRow \<Rightarrow> GuiData" where
  "appendRow guiData row = guiData\<lparr>RowsInTable := RowsInTable guiData @ [row]\<rparr>"

text \<open>
  \<^verbatim>\<open>populateGuiData\<close> (lines 128 to 150): a keyed literal that names seven of the nine
  fields (\<^verbatim>\<open>Branch\<close> is not among them), then five appends.
\<close>

definition populateGuiData :: GuiData where
  "populateGuiData =
     (let guiData = GuiData_zero\<lparr>
            Title := ''Golang Standalone GUI Example'',
            Unwatch := 3,
            Star := 0,
            Fork := 2,
            Commits := 31,
            Release := 1,
            Contributor := 1,
            RowsInTable := []\<rparr>;
          guiData = appendRow guiData
            (mkTableRow ''do_this.go'' ''Initial commit'' ''1 month ago'' ''file'');
          guiData = appendRow guiData
            (mkTableRow ''do_that.go'' ''Initial commit'' ''1 month ago'' ''file'');
          guiData = appendRow guiData
            (mkTableRow ''index.go'' ''Initial commit'' ''1 month ago'' ''file'');
          guiData = appendRow guiData
            (mkTableRow ''resources'' ''Initial commit'' ''2 months ago'' ''folder-open'');
          guiData = appendRow guiData
            (mkTableRow ''docs'' ''Initial commit'' ''2 months ago'' ''folder-open'')
      in guiData)"

section \<open>Errors and the HTTP response writer\<close>

text \<open>
  Go errors are values. The model keeps the two sentinel errors that
  \<^verbatim>\<open>net/http\<close> tells apart, the template engine's execution error for a field the data
  does not have (the field and the Go type of the data), its lookup error for an undefined template name, and a carrier for any
  other error with its message. \<open>error_text\<close> is \<^verbatim>\<open>err.Error()\<close>; for the engine's
  execution error it keeps the final clause of the message and leaves out the position
  prefix (\<^verbatim>\<open>template: gui:1:5: executing "gui" at <.Nope>:\<close>).
\<close>

datatype go_error =
    ErrNotExist
  | ErrPermission
  | ErrNoField string string
  | ErrUndefined string
  | ErrOther string

fun error_text :: "go_error \<Rightarrow> string" where
  "error_text ErrNotExist = ''file does not exist''"
| "error_text ErrPermission = ''permission denied''"
| "error_text (ErrNoField f ty) =
     ''can'' @ [CHR 0x27] @ ''t evaluate field '' @ f @ '' in type '' @ ty"
| "error_text (ErrUndefined n) =
     ''html/template: '' @ [CHR 0x22] @ n @ [CHR 0x22] @ '' is undefined''"
| "error_text (ErrOther m) = m"

text \<open>
  The \<^verbatim>\<open>http.ResponseWriter\<close> a handler receives, as \<^verbatim>\<open>net/http\<close> documents it: the
  status line is committed once, by the first \<^verbatim>\<open>WriteHeader\<close> or, failing that, by the
  first \<^verbatim>\<open>Write\<close> (which calls \<^verbatim>\<open>WriteHeader(http.StatusOK)\<close> before writing); a later
  \<^verbatim>\<open>WriteHeader\<close> is superfluous and ignored; when the handler returns without having
  written anything the server commits 200. Writes to the connection are taken to succeed,
  and every status the program sends (200, 301, 403, 404, 500) allows a body.
\<close>

record response =
  wroteHeader :: bool
  status :: nat
  handlerHeader :: "string \<rightharpoonup> string"
  body :: string

definition new_response :: response where
  "new_response = \<lparr>wroteHeader = False, status = 0, handlerHeader = Map.empty, body = []\<rparr>"

definition StatusOK :: nat where "StatusOK = 200"
definition StatusMovedPermanently :: nat where "StatusMovedPermanently = 301"
definition StatusForbidden :: nat where "StatusForbidden = 403"
definition StatusNotFound :: nat where "StatusNotFound = 404"
definition StatusInternalServerError :: nat where "StatusInternalServerError = 500"

definition WriteHeader :: "response \<Rightarrow> nat \<Rightarrow> response" where
  "WriteHeader w code =
     (if wroteHeader w then w else w\<lparr>wroteHeader := True, status := code\<rparr>)"

definition Write :: "response \<Rightarrow> string \<Rightarrow> response" where
  "Write w data =
     (let w = (if wroteHeader w then w else WriteHeader w StatusOK)
      in w\<lparr>body := body w @ data\<rparr>)"

definition Header_Set :: "response \<Rightarrow> string \<Rightarrow> string \<Rightarrow> response" where
  "Header_Set w k v = w\<lparr>handlerHeader := (handlerHeader w)(k \<mapsto> v)\<rparr>"

text \<open>
  \<^verbatim>\<open>http.Error(w, error, code)\<close>: two headers, \<^verbatim>\<open>w.WriteHeader(code)\<close>, then
  \<^verbatim>\<open>fmt.Fprintln(w, error)\<close>, which writes the text and a newline.
\<close>

definition http_Error :: "response \<Rightarrow> string \<Rightarrow> nat \<Rightarrow> response" where
  "http_Error w err code =
     (let w = Header_Set w ''Content-Type'' ''text/plain; charset=utf-8'';
          w = Header_Set w ''X-Content-Type-Options'' ''nosniff'';
          w = WriteHeader w code
      in Write w (err @ [CHR 0x0A]))"

text \<open>The server's epilogue once the handler has returned.\<close>

definition finishRequest :: "response \<Rightarrow> response" where
  "finishRequest w = (if wroteHeader w then w else WriteHeader w StatusOK)"

section \<open>The template engine\<close>

text \<open>
  Modelled from the spec: the template document \<^verbatim>\<open>files/templates/maingui.html\<close> and the
  engine that executes it (\<^verbatim>\<open>html/template\<close>) are not among the sources. The spec's
  Template is "a parsed, executable representation of one HTML document with embedded
  directives for variable substitution and iteration"; rendering "substitutes scalar
  fields directly and iterates the Rows sequence to emit repeated markup fragments, in
  sequence order, one fragment per row", and fails with a render error "if the view model
  is missing a field the template references". A parsed template is therefore a list of
  nodes: literal text, the substitution of a scalar field of the view model, and the
  iteration over \<^verbatim>\<open>RowsInTable\<close>, whose body is literal text and substitutions of fields
  of the current row.
\<close>

datatype rnode = RText string | RField string

datatype node = Text string | Field string | Range "rnode list"

datatype template = Template string "node list"

text \<open>Integers print in decimal, as \<^verbatim>\<open>fmt\<close> prints an \<^verbatim>\<open>int\<close>.\<close>

definition digit_char :: "nat \<Rightarrow> char" where
  "digit_char n = ''0123456789'' ! (n mod 10)"

fun udec :: "nat \<Rightarrow> string" where
  "udec n = (if n < 10 then [digit_char n] else udec (n div 10) @ [digit_char n])"

declare udec.simps [simp del]

definition itoa :: "int \<Rightarrow> string" where
  "itoa i = (if i < 0 then CHR ''-'' # udec (nat (- i)) else udec (nat i))"

text \<open>
  The engine named by the source is \<^verbatim>\<open>html/template\<close>, which passes every substituted
  value through its HTML escaper; in element content that escaper replaces exactly the
  seven bytes below. (Its other contexts, such as attribute values, URLs and scripts, are
  not modelled: a substitution stands in element content.)
\<close>

definition htmlEscapeChar :: "char \<Rightarrow> string" where
  "htmlEscapeChar c =
     (if c = CHR 0x00 then [CHR 0xEF, CHR 0xBF, CHR 0xBD]
      else if c = CHR 0x22 then ''&#34;''
      else if c = CHR ''&'' then ''&amp;''
      else if c = CHR 0x27 then ''&#39;''
      else if c = CHR ''+'' then ''&#43;''
      else if c = CHR ''<'' then ''&lt;''
      else if c = CHR ''>'' then ''&gt;''
      else [c])"

definition htmlEscape :: "string \<Rightarrow> string" where
  "htmlEscape s = concat (map htmlEscapeChar s)"

text \<open>
  The one field that is not a scalar prints as \<^verbatim>\<open>fmt\<close> prints a slice of structs: the rows
  in brackets, each row in braces, fields and rows separated by a space.
\<close>

fun join_space :: "string list \<Rightarrow> string" where
  "join_space [] = []"
| "join_space [e] = e"
| "join_space (e # es) = e @ '' '' @ join_space es"

definition fmt_row :: "TableRow \<Rightarrow> string" where
  "fmt_row r = ''{'' @ join_space [File r, Comment r, Ago r, Icon r] @ ''}''"

definition fmt_rows :: "TableRow list \<Rightarrow> string" where
  "fmt_rows rs = ''['' @ join_space (map fmt_row rs) @ '']''"

text \<open>
  Modelled from the spec: substitution of a field. The value it prints, or the render
  error for a field the view model (respectively the row) does not have.
\<close>

definition gui_field :: "GuiData \<Rightarrow> string \<Rightarrow> go_error + string" where
  "gui_field d f =
     (if f = ''Title'' then Inr (htmlEscape (Title d))
      else if f = ''Unwatch'' then Inr (itoa (Unwatch d))
      else if f = ''Star'' then Inr (itoa (Star d))
      else if f = ''Fork'' then Inr (itoa (Fork d))
      else if f = ''Commits'' then Inr (itoa (Commits d))
      else if f = ''Branch'' then Inr (itoa (Branch d))
      else if f = ''Release'' then Inr (itoa (Release d))
      else if f = ''Contributor'' then Inr (itoa (Contributor d))
      else if f = ''RowsInTable'' then Inr (htmlEscape (fmt_rows (RowsInTable d)))
      else Inl (ErrNoField f ''*main.GuiData''))"

definition row_field :: "TableRow \<Rightarrow> string \<Rightarrow> go_error + string" where
  "row_field r f =
     (if f = ''File'' then Inr (htmlEscape (File r))
      else if f = ''Comment'' then Inr (htmlEscape (Comment r))
      else if f = ''Ago'' then Inr (htmlEscape (Ago r))
      else if f = ''Icon'' then Inr (htmlEscape (Icon r))
      else Inl (ErrNoField f ''main.TableRow''))"

text \<open>
  Modelled from the spec: the engine's execution (\<^verbatim>\<open>render(template, viewModel,
  outputSink) -> ok | RenderError\<close>), which is not among the sources. It walks the nodes
  in document order and writes each piece to the response as soon as it is produced, as
  the source's comment says ("writing the HTML it generates directly to the
  http.ResponseWriter provided"). At the first error it stops; what was written stays
  written (the engine's documentation: "partial results may already have been written to
  the output writer").
\<close>

fun exec_rnode :: "rnode \<Rightarrow> TableRow \<Rightarrow> response \<Rightarrow> response \<times> go_error option" where
  "exec_rnode (RText s) r w = (Write w s, None)"
| "exec_rnode (RField f) r w =
     (case row_field r f of Inl e \<Rightarrow> (w, Some e) | Inr s \<Rightarrow> (Write w s, None))"

fun exec_row :: "rnode list \<Rightarrow> TableRow \<Rightarrow> response \<Rightarrow> response \<times> go_error option" where
  "exec_row [] r w = (w, None)"
| "exec_row (n # ns) r w =
     (case exec_rnode n r w of
        (w', Some e) \<Rightarrow> (w', Some e)
      | (w', None) \<Rightarrow> exec_row ns r w')"

text \<open>
  Modelled from the spec: the iteration over the rows ("in sequence order, one fragment per
  row, with no limit on row count and no reordering"), one pass of the body per row.
\<close>

fun exec_range :: "rnode list \<Rightarrow> TableRow list \<Rightarrow> response \<Rightarrow> response \<times> go_error option" where
  "exec_range b [] w = (w, None)"
| "exec_range b (r # rs) w =
     (case exec_row b r w of
        (w', Some e) \<Rightarrow> (w', Some e)
      | (w', None) \<Rightarrow> exec_range b rs w')"

fun exec_node :: "node \<Rightarrow> GuiData \<Rightarrow> response \<Rightarrow> response \<times> go_error option" where
  "exec_node (Text s) d w = (Write w s, None)"
| "exec_node (Field f) d w =
     (case gui_field d f of Inl e \<Rightarrow> (w, Some e) | Inr s \<Rightarrow> (Write w s, None))"
| "exec_node (Range b) d w = exec_range b (RowsInTable d) w"

fun exec_nodes :: "node list \<Rightarrow> GuiData \<Rightarrow> response \<Rightarrow> response \<times> go_error option" where
  "exec_nodes [] d w = (w, None)"
| "exec_nodes (n # ns) d w =
     (case exec_node n d w of
        (w', Some e) \<Rightarrow> (w', Some e)
      | (w', None) \<Rightarrow> exec_nodes ns d w')"

text \<open>
  Modelled from the spec: \<^verbatim>\<open>t.ExecuteTemplate(w, name, data)\<close>, the engine's entry point
  that \<^verbatim>\<open>guiHandler\<close> calls. The named template is looked up first (nothing is written
  when the name is undefined), then executed.
\<close>

fun ExecuteTemplate ::
  "template \<Rightarrow> response \<Rightarrow> string \<Rightarrow> GuiData \<Rightarrow> response \<times> go_error option" where
  "ExecuteTemplate (Template n ns) w name d =
     (if name = n then exec_nodes ns d w else (w, Some (ErrUndefined name)))"

text \<open>
  The same rendering without a sink, for stating what execution appends: the text a row
  contributes and the text a whole document contributes, as functions of the template and
  the data alone. Each returns the output up to the point where it stopped, and the error
  that stopped it, if any.
\<close>

fun render_rnode :: "rnode \<Rightarrow> TableRow \<Rightarrow> go_error + string" where
  "render_rnode (RText s) r = Inr s"
| "render_rnode (RField f) r = row_field r f"

fun render_row :: "rnode list \<Rightarrow> TableRow \<Rightarrow> string \<times> go_error option" where
  "render_row [] r = ([], None)"
| "render_row (n # ns) r =
     (case render_rnode n r of
        Inl e \<Rightarrow> ([], Some e)
      | Inr s \<Rightarrow> (case render_row ns r of (out, e) \<Rightarrow> (s @ out, e)))"

fun render_range :: "rnode list \<Rightarrow> TableRow list \<Rightarrow> string \<times> go_error option" where
  "render_range b [] = ([], None)"
| "render_range b (r # rs) =
     (case render_row b r of
        (out, Some e) \<Rightarrow> (out, Some e)
      | (out, None) \<Rightarrow> (case render_range b rs of (out', e) \<Rightarrow> (out @ out', e)))"

fun render_node :: "node \<Rightarrow> GuiData \<Rightarrow> string \<times> go_error option" where
  "render_node (Text s) d = (s, None)"
| "render_node (Field f) d =
     (case gui_field d f of Inl e \<Rightarrow> ([], Some e) | Inr s \<Rightarrow> (s, None))"
| "render_node (Range b) d = render_range b (RowsInTable d)"

fun render_nodes :: "node list \<Rightarrow> GuiData \<Rightarrow> string \<times> go_error option" where
  "render_nodes [] d = ([], None)"
| "render_nodes (n # ns) d =
     (case render_node n d of
        (out, Some e) \<Rightarrow> (out, Some e)
      | (out, None) \<Rightarrow> (case render_nodes ns d of (out', e) \<Rightarrow> (out @ out', e)))"

section \<open>The compiled-in file system and template loading\<close>

text \<open>
  \<^verbatim>\<open>generate.CompiledFileSystem\<close> is an \<^verbatim>\<open>http.FileSystem\<close>: one method,
  \<^verbatim>\<open>Open(name) (File, error)\<close>. The package that builds it is not among the sources, so
  the program is modelled over an arbitrary one. An opened file is modelled by what
  reading it to the end gives (\<^verbatim>\<open>ioutil.ReadAll\<close>): an error or the contents.
  \<^verbatim>\<open>template.New("gui").Parse\<close> is taken as a parameter too: it maps the document's text
  to an error or to the parsed nodes.
\<close>

type_synonym http_File = "go_error + string"

type_synonym filesystem = "string \<Rightarrow> go_error + http_File"

type_synonym parser = "string \<Rightarrow> go_error + node list"

text \<open>
  \<^verbatim>\<open>log.Fatalf\<close> prints its message and exits the process: \<open>parseTemplate\<close> returns
  either that message (\<open>Inl\<close>) or the template (lines 68 to 84).
\<close>

definition parseTemplate :: "filesystem \<Rightarrow> parser \<Rightarrow> string + template" where
  "parseTemplate CompiledFileSystem Parse =
     (let fName = ''files/templates/maingui.html'' in
      case CompiledFileSystem fName of
        Inl err \<Rightarrow> Inl (''Failed to open <'' @ fName @ ''>: '' @ error_text err)
      | Inr file \<Rightarrow>
          (case file of
             Inl err \<Rightarrow> Inl (''Failed to read contents of file: '' @ error_text err)
           | Inr contents \<Rightarrow>
               (case Parse contents of
                  Inl err \<Rightarrow> Inl (''Failed to parse template: '' @ error_text err)
                | Inr ns \<Rightarrow> Inr (Template ''gui'' ns))))"

section \<open>The process: main and its two handlers\<close>

text \<open>
  The process-wide state: the global \<^verbatim>\<open>htmlTemplate\<close> (nil until \<^verbatim>\<open>main\<close> assigns it),
  the compiled-in file system, the patterns registered on the default mux, whether the
  listener goroutine has been started and whether the browser has been launched.
\<close>

datatype handler = FileServerHandler | GuiHandler

record proc =
  htmlTemplate :: "template option"
  CompiledFileSystem :: filesystem
  mux :: "(string \<times> handler) list"
  listenerStarted :: bool
  browserOpened :: bool

definition proc_init :: "filesystem \<Rightarrow> proc" where
  "proc_init fs =
     \<lparr>htmlTemplate = None, CompiledFileSystem = fs, mux = [], listenerStarted = False,
      browserOpened = False\<rparr>"

text \<open>
  How a run of \<^verbatim>\<open>main\<close> ends: \<^verbatim>\<open>log.Fatalf\<close> exits the process with a message, or the
  main goroutine blocks on its channel for ever while the listener serves.
\<close>

datatype outcome = Exited string proc | Serving proc

definition Handle :: "proc \<Rightarrow> string \<Rightarrow> handler \<Rightarrow> proc" where
  "Handle p pattern h = p\<lparr>mux := mux p @ [(pattern, h)]\<rparr>"

text \<open>
  \<^verbatim>\<open>main\<close> (lines 21 to 63). \<open>listenErr\<close> is what \<^verbatim>\<open>http.ListenAndServe\<close> returns in its
  goroutine if it fails to bind, \<open>browserErr\<close> what \<^verbatim>\<open>browser.OpenURL\<close> returns. The
  goroutine's failure is taken to arrive during the three-second sleep.
\<close>

definition main :: "filesystem \<Rightarrow> parser \<Rightarrow> go_error option \<Rightarrow> go_error option \<Rightarrow> outcome" where
  "main fs Parse listenErr browserErr =
     (let p = proc_init fs in
      case parseTemplate (CompiledFileSystem p) Parse of
        Inl msg \<Rightarrow> Exited msg p
      | Inr t \<Rightarrow>
          (let p = p\<lparr>htmlTemplate := Some t\<rparr>;
               p = Handle p ''/files/'' FileServerHandler;
               p = Handle p ''/thegui'' GuiHandler;
               p = p\<lparr>listenerStarted := True\<rparr>
           in case listenErr of
                Some err \<Rightarrow> Exited (''http.ListenAndServe: '' @ error_text err) p
              | None \<Rightarrow>
                  (case browserErr of
                     Some err \<Rightarrow> Exited (''browser.Open: '' @ error_text err) p
                   | None \<Rightarrow> Serving (p\<lparr>browserOpened := True\<rparr>))))"

text \<open>
  \<^verbatim>\<open>guiHandler\<close> (lines 111 to 125). It returns the process state next to the response,
  so that what a request does to the globals can be stated. A handler only runs in a
  process where \<^verbatim>\<open>main\<close> has assigned \<^verbatim>\<open>htmlTemplate\<close>; on the nil template the call
  panics, which \<^verbatim>\<open>net/http\<close> recovers by dropping the connection: no response (\<open>None\<close>).
\<close>

definition guiHandler :: "proc \<Rightarrow> response \<Rightarrow> proc \<times> response option" where
  "guiHandler p w =
     (let dynamicData = populateGuiData in
      case htmlTemplate p of
        None \<Rightarrow> (p, None)
      | Some t \<Rightarrow>
          (case ExecuteTemplate t w ''gui'' dynamicData of
             (w, None) \<Rightarrow> (p, Some w)
           | (w, Some err) \<Rightarrow>
               (p, Some (http_Error w (error_text err) StatusInternalServerError))))"

text \<open>A page request as the server runs it: a fresh writer, the handler, the epilogue.\<close>

definition serve_thegui :: "proc \<Rightarrow> proc \<times> response option" where
  "serve_thegui p =
     (case guiHandler p new_response of (p', r) \<Rightarrow> (p', map_option finishRequest r))"

subsection \<open>The static route\<close>

text \<open>
  \<^verbatim>\<open>path.Clean\<close>, by its documented rules: runs of slashes collapse, \<^verbatim>\<open>.\<close> elements go,
  a \<^verbatim>\<open>..\<close> element removes the element before it, a \<^verbatim>\<open>..\<close> that begins a rooted path
  goes, and the empty result is \<^verbatim>\<open>.\<close>.
\<close>

fun split_slash :: "string \<Rightarrow> string list" where
  "split_slash [] = [[]]"
| "split_slash (c # cs) =
     (if c = CHR ''/'' then [] # split_slash cs
      else (case split_slash cs of [] \<Rightarrow> [[c]] | e # es \<Rightarrow> (c # e) # es))"

fun join_slash :: "string list \<Rightarrow> string" where
  "join_slash [] = []"
| "join_slash [e] = e"
| "join_slash (e # es) = e @ ''/'' @ join_slash es"

definition clean_step :: "bool \<Rightarrow> string list \<Rightarrow> string \<Rightarrow> string list" where
  "clean_step rooted st e =
     (if e = [] \<or> e = ''.'' then st
      else if e = ''..'' then
        (case st of
           [] \<Rightarrow> if rooted then [] else [''..'']
         | t # ts \<Rightarrow> if t = ''..'' then ''..'' # st else ts)
      else e # st)"

definition path_Clean :: "string \<Rightarrow> string" where
  "path_Clean path =
     (case path of
        [] \<Rightarrow> ''.''
      | c # _ \<Rightarrow>
          (let rooted = (c = CHR ''/'');
               out = join_slash (rev (foldl (clean_step rooted) [] (split_slash path)))
           in if rooted then ''/'' @ out else if out = [] then ''.'' else out))"

text \<open>\<^verbatim>\<open>toHTTPError\<close>: the message and status \<^verbatim>\<open>net/http\<close> gives a failed open.\<close>

fun toHTTPError :: "go_error \<Rightarrow> string \<times> nat" where
  "toHTTPError ErrNotExist = (''404 page not found'', StatusNotFound)"
| "toHTTPError ErrPermission = (''403 Forbidden'', StatusForbidden)"
| "toHTTPError _ = (''500 Internal Server Error'', StatusInternalServerError)"

text \<open>\<^verbatim>\<open>localRedirect\<close>, for a request without a query string.\<close>

definition localRedirect :: "response \<Rightarrow> string \<Rightarrow> response" where
  "localRedirect w newPath = WriteHeader (Header_Set w ''Location'' newPath) StatusMovedPermanently"

text \<open>
  What the file server does with a request up to and including the open. Once the entry
  is open it goes on to redirect to the canonical URL, list a directory or send the
  content, depending on the entry and on the request's conditional and range headers;
  that part is not modelled and is the constructor \<open>Opened\<close>.
\<close>

datatype served = Responded response | Opened http_File

text \<open>
  \<^verbatim>\<open>http.FileServer(root).ServeHTTP\<close> and the head of \<^verbatim>\<open>serveFile\<close>: the URL path is made
  rooted; a path that ends in \<^verbatim>\<open>/index.html\<close> is redirected to \<^verbatim>\<open>./\<close> before anything is
  opened; otherwise the cleaned path is opened and a failure becomes an HTTP error.
\<close>

definition serveFile :: "response \<Rightarrow> string \<Rightarrow> filesystem \<Rightarrow> string \<Rightarrow> served" where
  "serveFile w urlPath fs name =
     (if suffix ''/index.html'' urlPath then Responded (localRedirect w ''./'')
      else case fs name of
             Inl err \<Rightarrow> (case toHTTPError err of (msg, code) \<Rightarrow> Responded (http_Error w msg code))
           | Inr f \<Rightarrow> Opened f)"

definition FileServer_ServeHTTP :: "filesystem \<Rightarrow> response \<Rightarrow> string \<Rightarrow> served" where
  "FileServer_ServeHTTP root w urlPath =
     (let upath = (if prefix ''/'' urlPath then urlPath else ''/'' @ urlPath)
      in serveFile w upath root (path_Clean upath))"

text \<open>
  The handler registered on \<^verbatim>\<open>/files/\<close> as the mux invokes it: a fresh writer, the file
  server, the epilogue, with the process state it leaves.
\<close>

definition serve_files :: "proc \<Rightarrow> string \<Rightarrow> proc \<times> served" where
  "serve_files p urlPath =
     (p, case FileServer_ServeHTTP (CompiledFileSystem p) new_response urlPath of
           Responded w \<Rightarrow> Responded (finishRequest w)
         | Opened f \<Rightarrow> Opened f)"

subsection \<open>The default mux\<close>

text \<open>
  Lines 34, 37 and 41 register both handlers on \<^verbatim>\<open>http.DefaultServeMux\<close> and serve with
  it, so every request passes \<^verbatim>\<open>ServeMux.Handler\<close> first. For a request that is not a
  \<^verbatim>\<open>CONNECT\<close>, with no query string, no percent-escape in its path and no host-specific
  pattern registered: \<^verbatim>\<open>cleanPath\<close> makes the path rooted and cleans it, keeping a
  trailing slash.
\<close>

definition cleanPath :: "string \<Rightarrow> string" where
  "cleanPath p =
     (case p of
        [] \<Rightarrow> ''/''
      | c # _ \<Rightarrow>
          (let p = (if c \<noteq> CHR ''/'' then ''/'' @ p else p);
               np = path_Clean p
           in if suffix ''/'' p \<and> np \<noteq> ''/'' then
                (if length p = length np + 1 \<and> prefix np p then p else np @ ''/'')
              else np))"

text \<open>
  The patterns that end in a slash, kept sorted from longest to shortest
  (\<^verbatim>\<open>appendSorted\<close>); \<^verbatim>\<open>match\<close> tries the exact pattern first, then the longest of these
  that is a prefix of the path.
\<close>

definition appendSorted :: "(string \<times> handler) list \<Rightarrow> string \<times> handler \<Rightarrow> (string \<times> handler) list" where
  "appendSorted es e =
     takeWhile (\<lambda>x. length (fst e) \<le> length (fst x)) es @ [e] @
     dropWhile (\<lambda>x. length (fst e) \<le> length (fst x)) es"

definition mux_es :: "(string \<times> handler) list \<Rightarrow> (string \<times> handler) list" where
  "mux_es m = foldl appendSorted [] (filter (\<lambda>e. suffix ''/'' (fst e)) m)"

definition mux_match :: "(string \<times> handler) list \<Rightarrow> string \<Rightarrow> handler option" where
  "mux_match m path =
     (case map_of m path of
        Some h \<Rightarrow> Some h
      | None \<Rightarrow> map_option snd (find (\<lambda>e. prefix (fst e) path) (mux_es m)))"

text \<open>
  \<^verbatim>\<open>shouldRedirectRLocked\<close>: a path that is not registered while the same path with a
  slash appended is.
\<close>

definition shouldRedirect :: "(string \<times> handler) list \<Rightarrow> string \<Rightarrow> bool" where
  "shouldRedirect m path =
     (if map_of m path \<noteq> None then False
      else if path = [] then False
      else if map_of m (path @ ''/'') \<noteq> None then \<not> suffix ''/'' path
      else False)"

text \<open>
  \<^verbatim>\<open>ServeMux.Handler\<close>: redirect to the path with a slash appended, or to the cleaned
  path when the request's path is not in that form, before any handler runs; otherwise
  the matching handler, or none.
\<close>

datatype route = RedirectTo string | Route handler | NoRoute

definition mux_Handler :: "(string \<times> handler) list \<Rightarrow> string \<Rightarrow> route" where
  "mux_Handler m urlPath =
     (let path = cleanPath urlPath in
      if shouldRedirect m path then RedirectTo (path @ ''/'')
      else if path \<noteq> urlPath then RedirectTo path
      else case mux_match m urlPath of Some h \<Rightarrow> Route h | None \<Rightarrow> NoRoute)"

text \<open>
  \<^verbatim>\<open>ServeMux.ServeHTTP\<close> for a \<^verbatim>\<open>GET\<close> of the given path. \<open>Redirected u\<close> stands for the
  answer of \<^verbatim>\<open>RedirectHandler(u, http.StatusMovedPermanently)\<close>: status 301 with a
  \<^verbatim>\<open>Location\<close> header for the path \<open>u\<close> (its short HTML body is not modelled). A path
  that matches no pattern gets \<^verbatim>\<open>NotFoundHandler\<close>.
\<close>

datatype reply = Redirected string | Static served | Page "response option" | Unrouted response

definition ServeHTTP :: "proc \<Rightarrow> string \<Rightarrow> proc \<times> reply" where
  "ServeHTTP p urlPath =
     (case mux_Handler (mux p) urlPath of
        RedirectTo u \<Rightarrow> (p, Redirected u)
      | NoRoute \<Rightarrow>
          (p, Unrouted (finishRequest
                 (http_Error new_response ''404 page not found'' StatusNotFound)))
      | Route FileServerHandler \<Rightarrow> (case serve_files p urlPath of (p', s) \<Rightarrow> (p', Static s))
      | Route GuiHandler \<Rightarrow> (case serve_thegui p of (p', r) \<Rightarrow> (p', Page r)))"

text \<open>The registrations of \<^verbatim>\<open>main\<close>, in its order.\<close>

definition main_mux :: "(string \<times> handler) list" where
  "main_mux = [(''/files/'', FileServerHandler), (''/thegui'', GuiHandler)]"

text \<open>A file system that holds no document: every open fails with "not exist".\<close>

definition empty_fs :: filesystem where
  "empty_fs name = Inl ErrNotExist"

section \<open>The asset store\<close>

text \<open>
  Modelled from the spec: the package \<^verbatim>\<open>generate\<close>, which builds
  \<^verbatim>\<open>generate.CompiledFileSystem\<close>, is not among the sources. The spec's Asset Store is
  "an immutable, process-wide mapping from logical file path to byte content, populated
  once at start-up", with the contract \<^verbatim>\<open>get(path) -> bytes | NotFound\<close>. Population
  inserts the documents one after the other; \<open>AssetStore_Open\<close> presents the store as the
  \<^verbatim>\<open>http.FileSystem\<close> the program uses, a missing path being the error "not exist".
\<close>

type_synonym AssetStore = "string \<rightharpoonup> string"

datatype lookup = NotFound | Found string

definition store_insert :: "AssetStore \<Rightarrow> string \<times> string \<Rightarrow> AssetStore" where
  "store_insert s kv = s(fst kv \<mapsto> snd kv)"

definition populate :: "(string \<times> string) list \<Rightarrow> AssetStore" where
  "populate kvs = foldl store_insert Map.empty kvs"

definition get :: "AssetStore \<Rightarrow> string \<Rightarrow> lookup" where
  "get s path = (case s path of None \<Rightarrow> NotFound | Some bytes \<Rightarrow> Found bytes)"

definition AssetStore_Open :: "AssetStore \<Rightarrow> filesystem" where
  "AssetStore_Open s name =
     (case get s name of NotFound \<Rightarrow> Inl ErrNotExist | Found bytes \<Rightarrow> Inr (Inr bytes))"

section \<open>Auxiliary notions and concrete inputs\<close>

text \<open>
  A response is \<open>committed_ok\<close> when its status line, if already committed, says 200.
  The fresh response is, and writing keeps it so.
\<close>

definition committed_ok :: "response \<Rightarrow> bool" where
  "committed_ok w = (if wroteHeader w then status w = StatusOK else True)"

text \<open>A parser that takes the whole document as literal text.\<close>

definition text_parser :: parser where
  "text_parser contents = Inr [Text contents]"

text \<open>A serving process whose parsed template has the given nodes.\<close>

definition with_template :: "node list \<Rightarrow> proc" where
  "with_template ns = (proc_init empty_fs)\<lparr>htmlTemplate := Some (Template ''gui'' ns)\<rparr>"

text \<open>
  A file system that holds the template document only, under the name \<^verbatim>\<open>parseTemplate\<close>
  opens and under the rooted name the file server opens, and the state in which
  \<^verbatim>\<open>main\<close> serves on it.
\<close>

definition template_only_fs :: filesystem where
  "template_only_fs name =
     (if name = ''files/templates/maingui.html'' \<or> name = ''/files/templates/maingui.html''
      then Inr (Inr ''<html></html>'') else Inl ErrNotExist)"

definition serving_proc :: proc where
  "serving_proc =
     \<lparr>htmlTemplate = Some (Template ''gui'' [Text ''<html></html>'']),
      CompiledFileSystem = template_only_fs, mux = main_mux, listenerStarted = True,
      browserOpened = True\<rparr>"

text \<open>
  Four small documents: a table row body, a page that shows the title and the commit
  counter, a page that names a field \<^verbatim>\<open>GuiData\<close> does not have, and one that does so
  after some text.
\<close>

definition row_template :: "rnode list" where
  "row_template = [RText ''<tr><td>'', RField ''File'', RText ''</td></tr>'']"

definition page_template :: "node list" where
  "page_template =
     [Text ''<h1>'', Field ''Title'', Text ''</h1><b>'', Field ''Commits'', Text ''</b>'']"

definition nope_template :: "node list" where
  "nope_template = [Field ''Nope'']"

definition late_error_template :: "node list" where
  "late_error_template = [Text ''<p>'', Field ''Nope'']"

section \<open>The view model builder\<close>

lemma RowsInTable_populateGuiData:
  "RowsInTable populateGuiData =
     [mkTableRow ''do_this.go'' ''Initial commit'' ''1 month ago'' ''file'',
      mkTableRow ''do_that.go'' ''Initial commit'' ''1 month ago'' ''file'',
      mkTableRow ''index.go'' ''Initial commit'' ''1 month ago'' ''file'',
      mkTableRow ''resources'' ''Initial commit'' ''2 months ago'' ''folder-open'',
      mkTableRow ''docs'' ''Initial commit'' ''2 months ago'' ''folder-open'']"
  by (simp add: populateGuiData_def GuiData_zero_def appendRow_def Let_def)

lemma Title_populateGuiData: "Title populateGuiData = ''Golang Standalone GUI Example''"
  by (simp add: populateGuiData_def GuiData_zero_def appendRow_def Let_def)

lemma Commits_populateGuiData: "Commits populateGuiData = 31"
  by (simp add: populateGuiData_def GuiData_zero_def appendRow_def Let_def)

text \<open>
  C1. The builder takes no argument and reads no state, so it denotes one value: the
  title, the seven counters and the five literal rows below, in this order. Its type has
  no error component: there is no failing path.
\<close>

theorem populateGuiData_fixed_value:
  "populateGuiData =
     \<lparr>Title = ''Golang Standalone GUI Example'',
      Unwatch = 3, Star = 0, Fork = 2, Commits = 31, Branch = 0, Release = 1,
      Contributor = 1,
      RowsInTable =
        [\<lparr>File = ''do_this.go'', Comment = ''Initial commit'', Ago = ''1 month ago'',
          Icon = ''file''\<rparr>,
         \<lparr>File = ''do_that.go'', Comment = ''Initial commit'', Ago = ''1 month ago'',
          Icon = ''file''\<rparr>,
         \<lparr>File = ''index.go'', Comment = ''Initial commit'', Ago = ''1 month ago'',
          Icon = ''file''\<rparr>,
         \<lparr>File = ''resources'', Comment = ''Initial commit'', Ago = ''2 months ago'',
          Icon = ''folder-open''\<rparr>,
         \<lparr>File = ''docs'', Comment = ''Initial commit'', Ago = ''2 months ago'',
          Icon = ''folder-open''\<rparr>]\<rparr>"
  by (simp add: populateGuiData_def GuiData_zero_def appendRow_def mkTableRow_def Let_def)

text \<open>
  C9. The literal in \<^verbatim>\<open>populateGuiData\<close> never names \<^verbatim>\<open>Branch\<close>, so the returned value
  carries the zero value there, while the six other counters hold their literals.
\<close>

theorem populateGuiData_Branch_zero:
  "Branch populateGuiData = Branch GuiData_zero \<and> Branch populateGuiData = 0 \<and>
   [Unwatch populateGuiData, Star populateGuiData, Fork populateGuiData,
    Commits populateGuiData, Release populateGuiData, Contributor populateGuiData]
     = [3, 0, 2, 31, 1, 1]"
  by (simp add: populateGuiData_def GuiData_zero_def appendRow_def Let_def)

section \<open>The response writer\<close>

lemma body_Write [simp]: "body (Write w s) = body w @ s"
  by (simp add: Write_def WriteHeader_def Let_def)

lemma wroteHeader_Write [simp]: "wroteHeader (Write w s)"
  by (simp add: Write_def WriteHeader_def Let_def)

lemma status_Write [simp]:
  "status (Write w s) = (if wroteHeader w then status w else StatusOK)"
  by (simp add: Write_def WriteHeader_def Let_def)

lemma Write_record:
  "Write \<lparr>wroteHeader = True, status = c, handlerHeader = h, body = b\<rparr> s
     = \<lparr>wroteHeader = True, status = c, handlerHeader = h, body = b @ s\<rparr>"
  "Write \<lparr>wroteHeader = False, status = c, handlerHeader = h, body = b\<rparr> s
     = \<lparr>wroteHeader = True, status = 200, handlerHeader = h, body = b @ s\<rparr>"
  by (simp_all add: Write_def WriteHeader_def StatusOK_def)

lemma body_http_Error: "body (http_Error w msg code) = body w @ msg @ [CHR 0x0A]"
  by (simp add: http_Error_def Header_Set_def WriteHeader_def Let_def)

lemma status_http_Error:
  "status (http_Error w msg code) = (if wroteHeader w then status w else code)"
  by (simp add: http_Error_def Header_Set_def WriteHeader_def Let_def)

lemma wroteHeader_http_Error: "wroteHeader (http_Error w msg code)"
  by (simp add: http_Error_def Header_Set_def WriteHeader_def Let_def)

lemma http_Error_new_response:
  "http_Error new_response msg code
     = \<lparr>wroteHeader = True, status = code,
        handlerHeader = [''Content-Type'' \<mapsto> ''text/plain; charset=utf-8'',
                         ''X-Content-Type-Options'' \<mapsto> ''nosniff''],
        body = msg @ [CHR 0x0A]\<rparr>"
  by (simp add: http_Error_def Header_Set_def WriteHeader_def Write_def new_response_def Let_def)

lemma localRedirect_new_response:
  "localRedirect new_response newPath
     = \<lparr>wroteHeader = True, status = 301, handlerHeader = [''Location'' \<mapsto> newPath],
        body = []\<rparr>"
  by (simp add: localRedirect_def Header_Set_def WriteHeader_def new_response_def
      StatusMovedPermanently_def)

lemma body_finishRequest [simp]: "body (finishRequest w) = body w"
  by (simp add: finishRequest_def WriteHeader_def)

lemma committed_ok_new_response: "committed_ok new_response"
  by (simp add: committed_ok_def new_response_def)

lemma committed_ok_Write: "committed_ok w \<Longrightarrow> committed_ok (Write w s)"
  by (simp add: committed_ok_def)

lemma status_finishRequest_ok: "committed_ok w \<Longrightarrow> status (finishRequest w) = StatusOK"
  by (simp add: committed_ok_def finishRequest_def WriteHeader_def split: if_splits)

section \<open>Execution and rendering\<close>

text \<open>
  Executing against a response appends to its body exactly the text that the pure
  rendering functions compute, and stops with the same error.
\<close>

lemma exec_rnode_render:
  "exec_rnode n r w = (w', e) \<Longrightarrow>
     (case render_rnode n r of Inl x \<Rightarrow> e = Some x \<and> w' = w | Inr s \<Rightarrow> e = None \<and> w' = Write w s)"
  by (cases n) (auto split: sum.splits)

lemma exec_row_render:
  "exec_row b r w = (w', e) \<Longrightarrow>
     body w' = body w @ fst (render_row b r) \<and> e = snd (render_row b r)"
proof (induction b arbitrary: w)
  case Nil
  then show ?case by simp
next
  case (Cons n ns)
  show ?case
  proof (cases "render_rnode n r")
    case (Inl x)
    with Cons.prems exec_rnode_render [of n r w] show ?thesis
      by (auto split: prod.splits option.splits)
  next
    case (Inr s)
    obtain w1 e1 where x: "exec_rnode n r w = (w1, e1)" by (cases "exec_rnode n r w")
    with Inr exec_rnode_render [OF x] have w1: "e1 = None" "w1 = Write w s" by simp_all
    with x Cons.prems have "exec_row ns r (Write w s) = (w', e)" by simp
    from Cons.IH [OF this] Inr show ?thesis
      by (simp split: prod.splits)
  qed
qed

lemma exec_range_render:
  "exec_range b rs w = (w', e) \<Longrightarrow>
     body w' = body w @ fst (render_range b rs) \<and> e = snd (render_range b rs)"
proof (induction rs arbitrary: w)
  case Nil
  then show ?case by simp
next
  case (Cons r rs)
  obtain w1 e1 where x: "exec_row b r w = (w1, e1)" by (cases "exec_row b r w")
  note h = exec_row_render [OF x]
  show ?case
  proof (cases e1)
    case None
    with x Cons.prems have "exec_range b rs w1 = (w', e)" by simp
    from Cons.IH [OF this] h None show ?thesis
      by (cases "render_row b r") (simp split: prod.splits)
  next
    case (Some a)
    with x Cons.prems h show ?thesis
      by (cases "render_row b r") auto
  qed
qed

lemma exec_node_render:
  "exec_node n d w = (w', e) \<Longrightarrow>
     body w' = body w @ fst (render_node n d) \<and> e = snd (render_node n d)"
  by (cases n) (auto split: sum.splits dest: exec_range_render)

lemma exec_nodes_render:
  "exec_nodes ns d w = (w', e) \<Longrightarrow>
     body w' = body w @ fst (render_nodes ns d) \<and> e = snd (render_nodes ns d)"
proof (induction ns arbitrary: w)
  case Nil
  then show ?case by simp
next
  case (Cons n ns)
  obtain w1 e1 where x: "exec_node n d w = (w1, e1)" by (cases "exec_node n d w")
  note h = exec_node_render [OF x]
  show ?case
  proof (cases e1)
    case None
    with x Cons.prems have "exec_nodes ns d w1 = (w', e)" by simp
    from Cons.IH [OF this] h None show ?thesis
      by (cases "render_node n d") (simp split: prod.splits)
  next
    case (Some a)
    with x Cons.prems h show ?thesis
      by (cases "render_node n d") auto
  qed
qed

text \<open>A range that succeeds is the concatenation of one rendered body per row, in order.\<close>

lemma render_range_fragments:
  "render_range b rs = (out, None) \<Longrightarrow>
     \<exists>frags. list_all2 (\<lambda>r frag. render_row b r = (frag, None)) rs frags \<and> out = concat frags"
proof (induction rs arbitrary: out)
  case Nil
  then show ?case by simp
next
  case (Cons r rs)
  obtain o1 e1 where r1: "render_row b r = (o1, e1)" by (cases "render_row b r")
  obtain o2 e2 where r2: "render_range b rs = (o2, e2)" by (cases "render_range b rs")
  from Cons.prems r1 r2 have e: "e1 = None" "e2 = None" "out = o1 @ o2"
    by (auto split: option.splits)
  from Cons.IH [of o2] r2 e obtain frags
    where f: "list_all2 (\<lambda>r frag. render_row b r = (frag, None)) rs frags" "o2 = concat frags"
    by auto
  have "list_all2 (\<lambda>r frag. render_row b r = (frag, None)) (r # rs) (o1 # frags)"
    using f r1 e by simp
  moreover have "out = concat (o1 # frags)" using e f by simp
  ultimately show ?case by blast
qed

text \<open>A field the document substitutes at top level shows in the output of a successful run.\<close>

lemma render_nodes_mentions:
  "render_nodes ns d = (out, None) \<Longrightarrow> Field f \<in> set ns \<Longrightarrow>
     \<exists>s. gui_field d f = Inr s \<and> sublist s out"
proof (induction ns arbitrary: out)
  case Nil
  then show ?case by simp
next
  case (Cons n ns)
  obtain o1 e1 where r1: "render_node n d = (o1, e1)" by (cases "render_node n d")
  obtain o2 e2 where r2: "render_nodes ns d = (o2, e2)" by (cases "render_nodes ns d")
  from Cons.prems(1) r1 r2 have e: "e1 = None" "e2 = None" "out = o1 @ o2"
    by (auto split: option.splits)
  show ?case
  proof (cases "n = Field f")
    case True
    with r1 e obtain s where "gui_field d f = Inr s" "o1 = s"
      by (auto split: sum.splits)
    then show ?thesis using e by simp
  next
    case False
    with Cons.prems(2) have "Field f \<in> set ns" by simp
    from Cons.IH [OF _ this, of o2] r2 e obtain s
      where "gui_field d f = Inr s" "sublist s o2" by auto
    then show ?thesis using e by (auto simp: sublist_def) (metis append.assoc)
  qed
qed

text \<open>Execution never commits a status other than 200.\<close>

lemma committed_ok_exec_rnode:
  "committed_ok w \<Longrightarrow> exec_rnode n r w = (w', e) \<Longrightarrow> committed_ok w'"
  by (cases n) (auto split: sum.splits simp: committed_ok_Write)

lemma committed_ok_exec_row:
  "committed_ok w \<Longrightarrow> exec_row b r w = (w', e) \<Longrightarrow> committed_ok w'"
proof (induction b arbitrary: w)
  case Nil
  then show ?case by simp
next
  case (Cons n ns)
  obtain w1 e1 where x: "exec_rnode n r w = (w1, e1)" by (cases "exec_rnode n r w")
  with Cons.prems have ok1: "committed_ok w1" by (auto dest: committed_ok_exec_rnode)
  show ?case
  proof (cases e1)
    case None
    with x Cons.prems have "exec_row ns r w1 = (w', e)" by simp
    with Cons.IH ok1 show ?thesis by blast
  next
    case (Some a)
    with x Cons.prems ok1 show ?thesis by simp
  qed
qed

lemma committed_ok_exec_range:
  "committed_ok w \<Longrightarrow> exec_range b rs w = (w', e) \<Longrightarrow> committed_ok w'"
proof (induction rs arbitrary: w)
  case Nil
  then show ?case by simp
next
  case (Cons r rs)
  obtain w1 e1 where x: "exec_row b r w = (w1, e1)" by (cases "exec_row b r w")
  with Cons.prems have ok1: "committed_ok w1" by (auto dest: committed_ok_exec_row)
  show ?case
  proof (cases e1)
    case None
    with x Cons.prems have "exec_range b rs w1 = (w', e)" by simp
    with Cons.IH ok1 show ?thesis by blast
  next
    case (Some a)
    with x Cons.prems ok1 show ?thesis by simp
  qed
qed

lemma committed_ok_exec_node:
  "committed_ok w \<Longrightarrow> exec_node n d w = (w', e) \<Longrightarrow> committed_ok w'"
  by (cases n) (auto split: sum.splits simp: committed_ok_Write dest: committed_ok_exec_range)

lemma committed_ok_exec_nodes:
  "committed_ok w \<Longrightarrow> exec_nodes ns d w = (w', e) \<Longrightarrow> committed_ok w'"
proof (induction ns arbitrary: w)
  case Nil
  then show ?case by simp
next
  case (Cons n ns)
  obtain w1 e1 where x: "exec_node n d w = (w1, e1)" by (cases "exec_node n d w")
  with Cons.prems have ok1: "committed_ok w1" by (auto dest: committed_ok_exec_node)
  show ?case
  proof (cases e1)
    case None
    with x Cons.prems have "exec_nodes ns d w1 = (w', e)" by simp
    with Cons.IH ok1 show ?thesis by blast
  next
    case (Some a)
    with x Cons.prems ok1 show ?thesis by simp
  qed
qed

lemma ExecuteTemplate_ok:
  "ExecuteTemplate (Template n ns) w name d = (w', None) \<Longrightarrow>
     name = n \<and> exec_nodes ns d w = (w', None)"
  by (simp split: if_splits)

subsection \<open>Values on the fixed view model\<close>

lemma htmlEscape_simps:
  "htmlEscape [] = []"
  "htmlEscape (c # cs) = htmlEscapeChar c @ htmlEscape cs"
  by (simp_all add: htmlEscape_def)

lemma htmlEscape_title:
  "htmlEscape ''Golang Standalone GUI Example'' = ''Golang Standalone GUI Example''"
  by (simp add: htmlEscape_simps htmlEscapeChar_def)

lemma itoa_31: "itoa 31 = ''31''"
  by (simp add: itoa_def udec.simps digit_char_def)

lemma exec_row_template:
  "exec_range row_template (RowsInTable populateGuiData) new_response
     = (\<lparr>wroteHeader = True, status = 200, handlerHeader = Map.empty,
         body = ''<tr><td>do_this.go</td></tr><tr><td>do_that.go</td></tr><tr><td>index.go</td></tr><tr><td>resources</td></tr><tr><td>docs</td></tr>''\<rparr>, None)"
  by (simp add: row_template_def RowsInTable_populateGuiData mkTableRow_def row_field_def
      htmlEscape_simps htmlEscapeChar_def new_response_def Write_record)

lemma exec_page_template:
  "ExecuteTemplate (Template ''gui'' page_template) new_response ''gui'' populateGuiData
     = (\<lparr>wroteHeader = True, status = 200, handlerHeader = Map.empty,
         body = ''<h1>Golang Standalone GUI Example</h1><b>31</b>''\<rparr>, None)"
  by (simp add: page_template_def gui_field_def Title_populateGuiData Commits_populateGuiData
      htmlEscape_title itoa_31 new_response_def Write_record)

lemma exec_page_template_again:
  "ExecuteTemplate (Template ''gui'' page_template)
     \<lparr>wroteHeader = True, status = 200, handlerHeader = Map.empty,
      body = ''<h1>Golang Standalone GUI Example</h1><b>31</b>''\<rparr> ''gui'' populateGuiData
     = (\<lparr>wroteHeader = True, status = 200, handlerHeader = Map.empty,
         body = ''<h1>Golang Standalone GUI Example</h1><b>31</b><h1>Golang Standalone GUI Example</h1><b>31</b>''\<rparr>, None)"
  by (simp add: page_template_def gui_field_def Title_populateGuiData Commits_populateGuiData
      htmlEscape_title itoa_31 Write_record)

lemma exec_nope_template:
  "ExecuteTemplate (Template ''gui'' nope_template) new_response ''gui'' populateGuiData
     = (new_response, Some (ErrNoField ''Nope'' ''*main.GuiData''))"
  by (simp add: nope_template_def gui_field_def)

text \<open>
  C2. A successful iteration appends one rendered fragment per row, in the order of the
  rows and for any number of rows: the fragment at position \<open>i\<close> is the body rendered
  against row \<open>i\<close>. On the fixed view model that is five fragments, for the rows whose
  file names are \<^verbatim>\<open>do_this.go\<close>, \<^verbatim>\<open>do_that.go\<close>, \<^verbatim>\<open>index.go\<close>, \<^verbatim>\<open>resources\<close>, \<^verbatim>\<open>docs\<close>, in
  that order.
\<close>

theorem range_one_fragment_per_row:
  "(exec_range b rows w = (w', None) \<longrightarrow>
      (\<exists>frags. length frags = length rows \<and>
         (\<forall>i<length rows. render_row b (rows ! i) = (frags ! i, None)) \<and>
         body w' = body w @ concat frags)) \<and>
   (exec_node (Range b) populateGuiData w = (w', None) \<longrightarrow>
      (\<exists>frags. length frags = 5 \<and>
         (\<forall>i<5. render_row b (RowsInTable populateGuiData ! i) = (frags ! i, None)) \<and>
         body w' = body w @ concat frags)) \<and>
   map File (RowsInTable populateGuiData)
     = [''do_this.go'', ''do_that.go'', ''index.go'', ''resources'', ''docs'']"
proof -
  have general: "\<exists>frags. length frags = length rs \<and>
         (\<forall>i<length rs. render_row b (rs ! i) = (frags ! i, None)) \<and>
         body w' = body w @ concat frags"
    if run: "exec_range b rs w = (w', None)" for rs
  proof -
    from exec_range_render [OF run]
    have out: "body w' = body w @ fst (render_range b rs)" and ok: "snd (render_range b rs) = None"
      by simp_all
    from ok have "render_range b rs = (fst (render_range b rs), None)"
      by (cases "render_range b rs") simp
    from render_range_fragments [OF this] obtain frags
      where f: "list_all2 (\<lambda>r frag. render_row b r = (frag, None)) rs frags"
        and c: "fst (render_range b rs) = concat frags"
      by blast
    from f have "length frags = length rs"
      and "\<forall>i<length rs. render_row b (rs ! i) = (frags ! i, None)"
      by (simp_all add: list_all2_conv_all_nth)
    with out c show ?thesis by auto
  qed
  have five: "length (RowsInTable populateGuiData) = 5"
    by (simp add: RowsInTable_populateGuiData)
  show ?thesis
  proof (intro conjI impI)
    assume "exec_range b rows w = (w', None)"
    then show "\<exists>frags. length frags = length rows \<and>
         (\<forall>i<length rows. render_row b (rows ! i) = (frags ! i, None)) \<and>
         body w' = body w @ concat frags"
      by (rule general)
  next
    assume "exec_node (Range b) populateGuiData w = (w', None)"
    then have "exec_range b (RowsInTable populateGuiData) w = (w', None)" by simp
    from general [OF this] five
    show "\<exists>frags. length frags = 5 \<and>
         (\<forall>i<5. render_row b (RowsInTable populateGuiData ! i) = (frags ! i, None)) \<and>
         body w' = body w @ concat frags"
      by simp
  next
    show "map File (RowsInTable populateGuiData)
      = [''do_this.go'', ''do_that.go'', ''index.go'', ''resources'', ''docs'']"
      by (simp add: RowsInTable_populateGuiData mkTableRow_def)
  qed
qed

theorem range_one_fragment_per_row_witness:
  "exec_node (Range row_template) populateGuiData new_response
     = (\<lparr>wroteHeader = True, status = 200, handlerHeader = Map.empty,
         body = ''<tr><td>do_this.go</td></tr><tr><td>do_that.go</td></tr><tr><td>index.go</td></tr><tr><td>resources</td></tr><tr><td>docs</td></tr>''\<rparr>, None) \<and>
   (\<exists>frags. length frags = 5 \<and>
      ''<tr><td>do_this.go</td></tr><tr><td>do_that.go</td></tr><tr><td>index.go</td></tr><tr><td>resources</td></tr><tr><td>docs</td></tr>''
        = concat frags)"
proof -
  have h: "exec_node (Range row_template) populateGuiData new_response
     = (\<lparr>wroteHeader = True, status = 200, handlerHeader = Map.empty,
         body = ''<tr><td>do_this.go</td></tr><tr><td>do_that.go</td></tr><tr><td>index.go</td></tr><tr><td>resources</td></tr><tr><td>docs</td></tr>''\<rparr>, None)"
    by (simp add: exec_row_template)
  from range_one_fragment_per_row [of row_template "RowsInTable populateGuiData" new_response
      "\<lparr>wroteHeader = True, status = 200, handlerHeader = Map.empty,
         body = ''<tr><td>do_this.go</td></tr><tr><td>do_that.go</td></tr><tr><td>index.go</td></tr><tr><td>resources</td></tr><tr><td>docs</td></tr>''\<rparr>"] h
  obtain frags where "length frags = (5::nat)"
    and "body \<lparr>wroteHeader = True, status = 200, handlerHeader = Map.empty,
         body = ''<tr><td>do_this.go</td></tr><tr><td>do_that.go</td></tr><tr><td>index.go</td></tr><tr><td>resources</td></tr><tr><td>docs</td></tr>''\<rparr> = body new_response @ concat frags"
    by blast
  then have "\<exists>frags. length frags = (5::nat) \<and>
      ''<tr><td>do_this.go</td></tr><tr><td>do_that.go</td></tr><tr><td>index.go</td></tr><tr><td>resources</td></tr><tr><td>docs</td></tr>''
        = concat frags"
    by (auto simp: new_response_def)
  with h show ?thesis by blast
qed

section \<open>The page handler\<close>

lemma guiHandler_proc: "fst (guiHandler p w) = p"
  by (simp add: guiHandler_def Let_def split: option.splits prod.splits)

lemma serve_thegui_proc: "fst (serve_thegui p) = p"
proof (cases "guiHandler p new_response")
  case (Pair p' r)
  with guiHandler_proc [of p new_response] have "p' = p" by simp
  with Pair show ?thesis by (simp add: serve_thegui_def)
qed

lemma serve_files_proc: "fst (serve_files p urlPath) = p"
  by (simp add: serve_files_def)

lemma serve_thegui_ok:
  "htmlTemplate p = Some t \<Longrightarrow> ExecuteTemplate t new_response ''gui'' populateGuiData = (w, None)
     \<Longrightarrow> serve_thegui p = (p, Some (finishRequest w))"
  by (simp add: serve_thegui_def guiHandler_def Let_def)

lemma serve_thegui_err:
  "htmlTemplate p = Some t \<Longrightarrow>
   ExecuteTemplate t new_response ''gui'' populateGuiData = (w, Some err) \<Longrightarrow>
   serve_thegui p
     = (p, Some (finishRequest (http_Error w (error_text err) StatusInternalServerError)))"
  by (simp add: serve_thegui_def guiHandler_def Let_def)

text \<open>
  C4. Rendering is deterministic: two executions of the same template on the same view
  model stop with the same result and append the same bytes, whatever the two sinks
  held before (the second sink may be the first one after the first execution). A page
  request leaves the process as it found it, so asking again gives the same response.
\<close>

theorem render_deterministic:
  "(ExecuteTemplate t w1 name d = (w1', e1) \<and> ExecuteTemplate t w2 name d = (w2', e2) \<longrightarrow>
      e1 = e2 \<and> (\<exists>out. body w1' = body w1 @ out \<and> body w2' = body w2 @ out)) \<and>
   serve_thegui (fst (serve_thegui p)) = serve_thegui p"
proof (intro conjI impI)
  assume a: "ExecuteTemplate t w1 name d = (w1', e1) \<and> ExecuteTemplate t w2 name d = (w2', e2)"
  obtain n ns where t: "t = Template n ns" by (cases t)
  show "e1 = e2"
  proof (cases "name = n")
    case True
    with a t have "exec_nodes ns d w1 = (w1', e1)" "exec_nodes ns d w2 = (w2', e2)" by simp_all
    then show ?thesis by (auto dest!: exec_nodes_render)
  next
    case False
    with a t show ?thesis by auto
  qed
  show "\<exists>out. body w1' = body w1 @ out \<and> body w2' = body w2 @ out"
  proof (cases "name = n")
    case True
    with a t have "exec_nodes ns d w1 = (w1', e1)" "exec_nodes ns d w2 = (w2', e2)" by simp_all
    then have "body w1' = body w1 @ fst (render_nodes ns d)"
      "body w2' = body w2 @ fst (render_nodes ns d)"
      by (auto dest!: exec_nodes_render)
    then show ?thesis by blast
  next
    case False
    with a t have "w1' = w1" "w2' = w2" by auto
    then have "body w1' = body w1 @ []" "body w2' = body w2 @ []" by simp_all
    then show ?thesis by blast
  qed
next
  show "serve_thegui (fst (serve_thegui p)) = serve_thegui p"
    by (simp add: serve_thegui_proc)
qed

theorem render_deterministic_witness:
  "ExecuteTemplate (Template ''gui'' page_template) new_response ''gui'' populateGuiData
     = (\<lparr>wroteHeader = True, status = 200, handlerHeader = Map.empty,
         body = ''<h1>Golang Standalone GUI Example</h1><b>31</b>''\<rparr>, None) \<and>
   ExecuteTemplate (Template ''gui'' page_template)
     \<lparr>wroteHeader = True, status = 200, handlerHeader = Map.empty,
      body = ''<h1>Golang Standalone GUI Example</h1><b>31</b>''\<rparr> ''gui'' populateGuiData
     = (\<lparr>wroteHeader = True, status = 200, handlerHeader = Map.empty,
         body = ''<h1>Golang Standalone GUI Example</h1><b>31</b><h1>Golang Standalone GUI Example</h1><b>31</b>''\<rparr>, None) \<and>
   (\<exists>out. ''<h1>Golang Standalone GUI Example</h1><b>31</b>'' = body new_response @ out \<and>
      ''<h1>Golang Standalone GUI Example</h1><b>31</b><h1>Golang Standalone GUI Example</h1><b>31</b>''
        = ''<h1>Golang Standalone GUI Example</h1><b>31</b>'' @ out)"
proof -
  note a = exec_page_template
  note b = exec_page_template_again
  from render_deterministic [of "Template ''gui'' page_template" new_response "''gui''"
      populateGuiData _ None _ _ None] a b
  have "\<exists>out. body \<lparr>wroteHeader = True, status = 200, handlerHeader = Map.empty,
         body = ''<h1>Golang Standalone GUI Example</h1><b>31</b>''\<rparr> = body new_response @ out \<and>
      body \<lparr>wroteHeader = True, status = 200, handlerHeader = Map.empty,
         body = ''<h1>Golang Standalone GUI Example</h1><b>31</b><h1>Golang Standalone GUI Example</h1><b>31</b>''\<rparr>
        = body \<lparr>wroteHeader = True, status = 200, handlerHeader = Map.empty,
         body = ''<h1>Golang Standalone GUI Example</h1><b>31</b>''\<rparr> @ out"
    by blast
  then have "\<exists>out. ''<h1>Golang Standalone GUI Example</h1><b>31</b>'' = body new_response @ out \<and>
      ''<h1>Golang Standalone GUI Example</h1><b>31</b><h1>Golang Standalone GUI Example</h1><b>31</b>''
        = ''<h1>Golang Standalone GUI Example</h1><b>31</b>'' @ out"
    by simp
  with a b show ?thesis by blast
qed

text \<open>
  C3. When \<^verbatim>\<open>ExecuteTemplate\<close> returns no error, the page request is answered with status
  200; the view model it rendered has the title "Golang Standalone GUI Example" and the
  commit counter 31, and the body contains the title, respectively "31", whenever the
  document substitutes that field.
\<close>

theorem thegui_success:
  assumes t: "htmlTemplate p = Some (Template n ns)"
    and run: "ExecuteTemplate (Template n ns) new_response ''gui'' populateGuiData = (w, None)"
  shows "\<exists>r. serve_thegui p = (p, Some r) \<and> status r = 200 \<and>
           (Field ''Title'' \<in> set ns \<longrightarrow> sublist ''Golang Standalone GUI Example'' (body r)) \<and>
           (Field ''Commits'' \<in> set ns \<longrightarrow> sublist ''31'' (body r)) \<and>
           Title populateGuiData = ''Golang Standalone GUI Example'' \<and>
           Commits populateGuiData = 31"
proof -
  from ExecuteTemplate_ok [OF run] have ex: "exec_nodes ns populateGuiData new_response = (w, None)"
    by simp
  from committed_ok_exec_nodes [OF committed_ok_new_response ex]
  have st: "status (finishRequest w) = 200"
    by (simp add: status_finishRequest_ok StatusOK_def)
  from exec_nodes_render [OF ex]
  have out: "body w = fst (render_nodes ns populateGuiData)"
    and ok: "snd (render_nodes ns populateGuiData) = None"
    by (simp_all add: new_response_def)
  from ok out have rn: "render_nodes ns populateGuiData = (body w, None)"
    by (cases "render_nodes ns populateGuiData") simp
  have title: "sublist ''Golang Standalone GUI Example'' (body (finishRequest w))"
    if "Field ''Title'' \<in> set ns"
    using render_nodes_mentions [OF rn that]
    by (simp add: gui_field_def Title_populateGuiData htmlEscape_title)
  have commits: "sublist ''31'' (body (finishRequest w))"
    if "Field ''Commits'' \<in> set ns"
    using render_nodes_mentions [OF rn that]
    by (simp add: gui_field_def Commits_populateGuiData itoa_31)
  from serve_thegui_ok [OF t run] st title commits Title_populateGuiData Commits_populateGuiData
  show ?thesis by blast
qed

theorem thegui_success_witness:
  "htmlTemplate (with_template page_template) = Some (Template ''gui'' page_template) \<and>
   ExecuteTemplate (Template ''gui'' page_template) new_response ''gui'' populateGuiData
     = (\<lparr>wroteHeader = True, status = 200, handlerHeader = Map.empty,
         body = ''<h1>Golang Standalone GUI Example</h1><b>31</b>''\<rparr>, None) \<and>
   (\<exists>r. serve_thegui (with_template page_template) = (with_template page_template, Some r) \<and>
        status r = 200 \<and>
        sublist ''Golang Standalone GUI Example'' (body r) \<and> sublist ''31'' (body r))"
proof -
  have t: "htmlTemplate (with_template page_template) = Some (Template ''gui'' page_template)"
    by (simp add: with_template_def)
  have m: "Field ''Title'' \<in> set page_template" "Field ''Commits'' \<in> set page_template"
    by (simp_all add: page_template_def)
  from thegui_success [OF t exec_page_template] m
  have "\<exists>r. serve_thegui (with_template page_template) = (with_template page_template, Some r) \<and>
        status r = 200 \<and>
        sublist ''Golang Standalone GUI Example'' (body r) \<and> sublist ''31'' (body r)"
    by blast
  with t exec_page_template show ?thesis by blast
qed

text \<open>
  C10. When \<^verbatim>\<open>ExecuteTemplate\<close> returns an error, the body sent to the client is what had
  been written so far followed by the text of that error, \<^verbatim>\<open>err.Error()\<close>, unchanged, and
  a newline.
\<close>

theorem thegui_error_text_in_body:
  assumes t: "htmlTemplate p = Some t"
    and run: "ExecuteTemplate t new_response ''gui'' populateGuiData = (w, Some err)"
  shows "\<exists>r. serve_thegui p = (p, Some r) \<and>
           body r = body w @ error_text err @ [CHR 0x0A] \<and>
           sublist (error_text err) (body r)"
proof -
  let ?r = "finishRequest (http_Error w (error_text err) StatusInternalServerError)"
  have "body ?r = body w @ error_text err @ [CHR 0x0A]"
    by (simp add: body_http_Error)
  moreover from this have "sublist (error_text err) (body ?r)" by simp
  ultimately show ?thesis using serve_thegui_err [OF t run] by blast
qed

theorem thegui_error_text_in_body_witness:
  "htmlTemplate (with_template nope_template) = Some (Template ''gui'' nope_template) \<and>
   ExecuteTemplate (Template ''gui'' nope_template) new_response ''gui'' populateGuiData
     = (new_response, Some (ErrNoField ''Nope'' ''*main.GuiData'')) \<and>
   (\<exists>r. serve_thegui (with_template nope_template) = (with_template nope_template, Some r) \<and>
        body r = ''can'' @ [CHR 0x27] @ ''t evaluate field Nope in type *main.GuiData'' @ [CHR 0x0A])"
proof -
  have t: "htmlTemplate (with_template nope_template) = Some (Template ''gui'' nope_template)"
    by (simp add: with_template_def)
  from thegui_error_text_in_body [OF t exec_nope_template]
  have "\<exists>r. serve_thegui (with_template nope_template) = (with_template nope_template, Some r) \<and>
        body r = ''can'' @ [CHR 0x27] @ ''t evaluate field Nope in type *main.GuiData'' @ [CHR 0x0A]"
    by (auto simp: new_response_def)
  with t exec_nope_template show ?thesis by blast
qed

text \<open>
  The status of the response to a failed render: \<^verbatim>\<open>http.Error\<close> asks for 500, which the
  writer takes only if nothing has been written yet. The process state is returned
  unchanged either way.
\<close>

lemma thegui_error_status:
  assumes t: "htmlTemplate p = Some t"
    and run: "ExecuteTemplate t new_response ''gui'' populateGuiData = (w, Some err)"
  shows "\<exists>r. serve_thegui p = (p, Some r) \<and>
           status r = (if wroteHeader w then 200 else 500)"
proof -
  obtain n ns where tt: "t = Template n ns" by (cases t)
  have ok: "committed_ok w"
  proof (cases "n = ''gui''")
    case True
    with run tt have "exec_nodes ns populateGuiData new_response = (w, Some err)" by simp
    from committed_ok_exec_nodes [OF committed_ok_new_response this] show ?thesis .
  next
    case False
    with run tt have "w = new_response" by auto
    then show ?thesis by (simp add: committed_ok_new_response)
  qed
  let ?r = "finishRequest (http_Error w (error_text err) StatusInternalServerError)"
  have "status ?r = (if wroteHeader w then 200 else 500)"
    using ok
    by (simp add: finishRequest_def wroteHeader_http_Error status_http_Error committed_ok_def
        StatusOK_def StatusInternalServerError_def split: if_splits)
  with serve_thegui_err [OF t run] show ?thesis by blast
qed

text \<open>
  C5. A render that fails after it has produced output: the document \<^verbatim>\<open><p>{{.Nope}}\<close>.
  The text \<^verbatim>\<open><p>\<close> commits status 200, the \<^verbatim>\<open>WriteHeader(500)\<close> of \<^verbatim>\<open>http.Error\<close> is
  superfluous, and the client receives a 200 whose body ends in the error text.
\<close>

theorem thegui_error_after_output:
  "map_option (\<lambda>r. (status r, body r)) (snd (serve_thegui (with_template late_error_template)))
     = Some (200, ''<p>can'' @ [CHR 0x27] @ ''t evaluate field Nope in type *main.GuiData'' @ [CHR 0x0A])"
  by (simp add: serve_thegui_def guiHandler_def with_template_def proc_init_def
      late_error_template_def gui_field_def new_response_def Write_record
      body_http_Error status_http_Error finishRequest_def wroteHeader_http_Error)

section \<open>Start-up\<close>

text \<open>
  C6. \<^verbatim>\<open>parseTemplate\<close> ends the process exactly when the open of
  \<^verbatim>\<open>files/templates/maingui.html\<close> returns an error (for the compiled-in store: the
  document is absent), when reading the opened file returns an error, or when the parser
  rejects the contents. \<^verbatim>\<open>main\<close> then exits with that message in its initial state: no
  pattern registered, no listener started. Conversely a process that serves has its
  template loaded, so no request ever meets a loading failure.
\<close>

theorem template_loading_fatal:
  "((\<exists>msg. parseTemplate fs Parse = Inl msg) \<longleftrightarrow>
      ((\<exists>e. fs ''files/templates/maingui.html'' = Inl e) \<or>
       (\<exists>e. fs ''files/templates/maingui.html'' = Inr (Inl e)) \<or>
       (\<exists>c e. fs ''files/templates/maingui.html'' = Inr (Inr c) \<and> Parse c = Inl e))) \<and>
   (\<forall>msg. parseTemplate fs Parse = Inl msg \<longrightarrow>
      main fs Parse listenErr browserErr = Exited msg (proc_init fs) \<and>
      \<not> listenerStarted (proc_init fs) \<and> mux (proc_init fs) = []) \<and>
   (\<forall>p. main fs Parse listenErr browserErr = Serving p \<longrightarrow>
      (\<exists>t. parseTemplate fs Parse = Inr t \<and> htmlTemplate p = Some t))"
proof (intro conjI allI impI)
  show "(\<exists>msg. parseTemplate fs Parse = Inl msg) \<longleftrightarrow>
      ((\<exists>e. fs ''files/templates/maingui.html'' = Inl e) \<or>
       (\<exists>e. fs ''files/templates/maingui.html'' = Inr (Inl e)) \<or>
       (\<exists>c e. fs ''files/templates/maingui.html'' = Inr (Inr c) \<and> Parse c = Inl e))"
    by (auto simp: parseTemplate_def Let_def split: sum.splits)
next
  fix msg assume "parseTemplate fs Parse = Inl msg"
  then show "main fs Parse listenErr browserErr = Exited msg (proc_init fs)"
    by (simp add: main_def Let_def proc_init_def)
next
  show "\<not> listenerStarted (proc_init fs)" by (simp add: proc_init_def)
next
  show "mux (proc_init fs) = []" by (simp add: proc_init_def)
next
  fix p assume "main fs Parse listenErr browserErr = Serving p"
  then show "\<exists>t. parseTemplate fs Parse = Inr t \<and> htmlTemplate p = Some t"
    by (auto simp: main_def Let_def proc_init_def Handle_def split: sum.splits option.splits)
qed

theorem template_loading_fatal_witness:
  "parseTemplate empty_fs text_parser
     = Inl ''Failed to open <files/templates/maingui.html>: file does not exist'' \<and>
   main empty_fs text_parser None None
     = Exited ''Failed to open <files/templates/maingui.html>: file does not exist''
         (proc_init empty_fs)"
proof -
  have h: "parseTemplate empty_fs text_parser
     = Inl ''Failed to open <files/templates/maingui.html>: file does not exist''"
    by (simp add: parseTemplate_def empty_fs_def)
  from template_loading_fatal [of empty_fs text_parser None None] h
  show ?thesis by blast
qed

section \<open>The asset store and the static route\<close>

lemma foldl_store_insert_other:
  "path \<notin> fst ` set kvs \<Longrightarrow> foldl store_insert s kvs path = s path"
  by (induction kvs arbitrary: s) (auto simp: store_insert_def)

lemma foldl_store_insert_member:
  "distinct (map fst kvs) \<Longrightarrow> (path, bytes) \<in> set kvs \<Longrightarrow>
     foldl store_insert s kvs path = Some bytes"
proof (induction kvs arbitrary: s)
  case Nil
  then show ?case by simp
next
  case (Cons kv kvs)
  show ?case
  proof (cases "kv = (path, bytes)")
    case True
    with Cons.prems(1) have "path \<notin> fst ` set kvs" by auto
    then have "foldl store_insert (store_insert s kv) kvs path = store_insert s kv path"
      by (rule foldl_store_insert_other)
    moreover have "store_insert s kv path = Some bytes"
      using True by (simp add: store_insert_def)
    ultimately show ?thesis by simp
  next
    case False
    with Cons.prems have "distinct (map fst kvs)" "(path, bytes) \<in> set kvs" by auto
    from Cons.IH [OF this] show ?thesis by simp
  qed
qed

text \<open>
  C7. Each document inserted at population (one insertion per path) is returned by
  \<open>get\<close> byte for byte, also through the \<^verbatim>\<open>http.FileSystem\<close> view of the store; and
  neither kind of request changes the file system the process holds.
\<close>

theorem asset_store_round_trip:
  "(distinct (map fst kvs) \<and> (path, bytes) \<in> set kvs \<longrightarrow>
      get (populate kvs) path = Found bytes \<and>
      AssetStore_Open (populate kvs) path = Inr (Inr bytes)) \<and>
   CompiledFileSystem (fst (serve_thegui p)) = CompiledFileSystem p \<and>
   CompiledFileSystem (fst (serve_files p urlPath)) = CompiledFileSystem p"
proof (intro conjI impI)
  assume "distinct (map fst kvs) \<and> (path, bytes) \<in> set kvs"
  then have "populate kvs path = Some bytes"
    unfolding populate_def by (simp add: foldl_store_insert_member)
  then show "get (populate kvs) path = Found bytes"
    and "AssetStore_Open (populate kvs) path = Inr (Inr bytes)"
    by (simp_all add: get_def AssetStore_Open_def)
next
  show "CompiledFileSystem (fst (serve_thegui p)) = CompiledFileSystem p"
    by (simp add: serve_thegui_proc)
next
  show "CompiledFileSystem (fst (serve_files p urlPath)) = CompiledFileSystem p"
    by (simp add: serve_files_proc)
qed

theorem asset_store_round_trip_witness:
  "distinct (map fst [(''files/templates/maingui.html'', ''<html></html>''),
                      (''files/css/gui.css'', ''body {}'')]) \<and>
   (''files/css/gui.css'', ''body {}'') \<in>
     set [(''files/templates/maingui.html'', ''<html></html>''),
          (''files/css/gui.css'', ''body {}'')] \<and>
   get (populate [(''files/templates/maingui.html'', ''<html></html>''),
                  (''files/css/gui.css'', ''body {}'')]) ''files/css/gui.css''
     = Found ''body {}''"
proof -
  have h: "distinct (map fst [(''files/templates/maingui.html'', ''<html></html>''),
                      (''files/css/gui.css'', ''body {}'')]) \<and>
   (''files/css/gui.css'', ''body {}'') \<in>
     set [(''files/templates/maingui.html'', ''<html></html>''),
          (''files/css/gui.css'', ''body {}'')]"
    by simp
  from asset_store_round_trip [of "[(''files/templates/maingui.html'', ''<html></html>''),
          (''files/css/gui.css'', ''body {}'')]" "''files/css/gui.css''" "''body {}''"] h
  show ?thesis by blast
qed

subsection \<open>Routing\<close>

lemma main_serving: "main template_only_fs text_parser None None = Serving serving_proc"
  by (simp add: main_def parseTemplate_def template_only_fs_def text_parser_def proc_init_def
      Handle_def serving_proc_def main_mux_def Let_def)

lemma main_Serving_state:
  "main fs Parse listenErr browserErr = Serving p \<Longrightarrow>
     mux p = main_mux \<and> CompiledFileSystem p = fs"
  by (auto simp: main_def Let_def proc_init_def Handle_def main_mux_def
      split: sum.splits option.splits)

lemma mux_es_main: "mux_es main_mux = [(''/files/'', FileServerHandler)]"
  by (simp add: mux_es_def main_mux_def appendSorted_def suffix_to_prefix)

lemma shouldRedirect_main: "shouldRedirect main_mux c = (c = ''/files'')"
proof -
  have a: "c @ ''/'' = ''/files/'' \<longleftrightarrow> c = ''/files''"
    using append1_eq_conv [of c "CHR ''/''" "''/files''" "CHR ''/''"] by simp
  have b: "c @ ''/'' \<noteq> ''/thegui''"
    using append1_eq_conv [of c "CHR ''/''" "''/thegu''" "CHR ''i''"] by simp
  show ?thesis
    using a b by (auto simp: shouldRedirect_def main_mux_def suffix_to_prefix)
qed

lemma mux_match_files:
  "prefix ''/files/'' path \<Longrightarrow> mux_match main_mux path = Some FileServerHandler"
proof -
  assume p: "prefix ''/files/'' path"
  then have "path \<noteq> ''/thegui''" by (auto simp: prefix_def)
  then have "map_of main_mux path = (if path = ''/files/'' then Some FileServerHandler else None)"
    by (simp add: main_mux_def)
  with p show ?thesis
    by (simp add: mux_match_def mux_es_main)
qed

lemma mux_Handler_files_canonical:
  "prefix ''/files/'' urlPath \<Longrightarrow> cleanPath urlPath = urlPath \<Longrightarrow>
     mux_Handler main_mux urlPath = Route FileServerHandler"
proof -
  assume p: "prefix ''/files/'' urlPath" and c: "cleanPath urlPath = urlPath"
  from p have "urlPath \<noteq> ''/files''" by (auto simp: prefix_def)
  with p c show ?thesis
    by (simp add: mux_Handler_def shouldRedirect_main mux_match_files)
qed

lemma mux_Handler_not_canonical:
  "cleanPath urlPath \<noteq> urlPath \<Longrightarrow>
     mux_Handler main_mux urlPath
       = RedirectTo (if cleanPath urlPath = ''/files'' then ''/files/'' else cleanPath urlPath)"
  by (simp add: mux_Handler_def shouldRedirect_main Let_def)

lemma prefix_files_rooted: "prefix ''/files/'' urlPath \<Longrightarrow> prefix ''/'' urlPath"
  by (auto simp: prefix_def)

text \<open>The page route: \<^verbatim>\<open>/thegui\<close> is canonical and matches its pattern exactly.\<close>

lemma ServeHTTP_thegui:
  "main fs Parse listenErr browserErr = Serving p \<Longrightarrow>
     ServeHTTP p ''/thegui'' = (p, Page (snd (serve_thegui p)))"
proof -
  assume "main fs Parse listenErr browserErr = Serving p"
  with main_Serving_state have st: "mux p = main_mux" by blast
  have c: "cleanPath ''/thegui'' = ''/thegui''"
    by (simp add: cleanPath_def path_Clean_def clean_step_def suffix_to_prefix)
  have "mux_Handler main_mux ''/thegui'' = Route GuiHandler"
    by (simp add: mux_Handler_def shouldRedirect_main c mux_match_def) (simp add: main_mux_def)
  with st serve_thegui_proc [of p] show ?thesis
    by (cases "serve_thegui p") (simp add: ServeHTTP_def)
qed

text \<open>
  C8, as stated, fails: in the process \<^verbatim>\<open>main\<close> leaves serving, a request for
  \<^verbatim>\<open>/files/index.html\<close> against a store without that document is answered with a redirect
  (301), not with 404, because the file server redirects every path ending in
  \<^verbatim>\<open>/index.html\<close> before it opens anything.
\<close>

theorem static_index_html_counterexample:
  "main template_only_fs text_parser None None = Serving serving_proc \<and>
   prefix ''/files/'' ''/files/index.html'' \<and>
   CompiledFileSystem serving_proc (path_Clean ''/files/index.html'') = Inl ErrNotExist \<and>
   ServeHTTP serving_proc ''/files/index.html''
     = (serving_proc,
        Static (Responded \<lparr>wroteHeader = True, status = 301,
          handlerHeader = [''Location'' \<mapsto> ''./''], body = []\<rparr>)) \<and>
   (301::nat) \<noteq> 404"
proof -
  have c: "cleanPath ''/files/index.html'' = ''/files/index.html''"
    by (simp add: cleanPath_def path_Clean_def clean_step_def suffix_to_prefix)
  have r: "mux_Handler (mux serving_proc) ''/files/index.html'' = Route FileServerHandler"
    using mux_Handler_files_canonical [OF _ c] by (simp add: serving_proc_def)
  have f: "CompiledFileSystem serving_proc (path_Clean ''/files/index.html'') = Inl ErrNotExist"
    by (simp add: serving_proc_def template_only_fs_def path_Clean_def clean_step_def)
  have s: "serve_files serving_proc ''/files/index.html''
     = (serving_proc,
        Responded \<lparr>wroteHeader = True, status = 301,
          handlerHeader = [''Location'' \<mapsto> ''./''], body = []\<rparr>)"
    by (simp add: serve_files_def FileServer_ServeHTTP_def serveFile_def
        suffix_to_prefix localRedirect_new_response finishRequest_def)
  from r s have "ServeHTTP serving_proc ''/files/index.html''
     = (serving_proc,
        Static (Responded \<lparr>wroteHeader = True, status = 301,
          handlerHeader = [''Location'' \<mapsto> ''./''], body = []\<rparr>))"
    by (simp add: ServeHTTP_def)
  with main_serving f show ?thesis by simp
qed

text \<open>
  C8, amended. In a process that \<^verbatim>\<open>main\<close> leaves serving, take a request whose path
  begins with \<^verbatim>\<open>/files/\<close>. If the path is in the mux's canonical form, does not end in
  \<^verbatim>\<open>/index.html\<close> and its cleaned form is not in the store, the answer is status 404
  with the body "404 page not found", the process state unchanged. If the path is
  canonical and ends in \<^verbatim>\<open>/index.html\<close>, the answer is status 301 with \<^verbatim>\<open>Location: ./\<close>,
  the store not consulted. If the path is not canonical, the mux answers with a 301 to
  the canonical path before the file server runs.
\<close>

theorem static_not_found:
  "main fs Parse listenErr browserErr = Serving p \<and> prefix ''/files/'' urlPath \<longrightarrow>
     (cleanPath urlPath = urlPath \<and> \<not> suffix ''/index.html'' urlPath \<and>
      fs (path_Clean urlPath) = Inl ErrNotExist \<longrightarrow>
        (\<exists>w. ServeHTTP p urlPath = (p, Static (Responded w)) \<and> status w = 404 \<and>
             body w = ''404 page not found'' @ [CHR 0x0A])) \<and>
     (cleanPath urlPath = urlPath \<and> suffix ''/index.html'' urlPath \<longrightarrow>
        (\<exists>w. ServeHTTP p urlPath = (p, Static (Responded w)) \<and> status w = 301 \<and>
             handlerHeader w ''Location'' = Some ''./'' \<and> body w = [])) \<and>
     (cleanPath urlPath \<noteq> urlPath \<longrightarrow>
        ServeHTTP p urlPath
          = (p, Redirected (if cleanPath urlPath = ''/files'' then ''/files/''
                            else cleanPath urlPath)))"
proof (intro conjI impI)
  assume m: "main fs Parse listenErr browserErr = Serving p \<and> prefix ''/files/'' urlPath"
    and a: "cleanPath urlPath = urlPath \<and> \<not> suffix ''/index.html'' urlPath \<and>
      fs (path_Clean urlPath) = Inl ErrNotExist"
  from m main_Serving_state have st: "mux p = main_mux" "CompiledFileSystem p = fs" by blast+
  from m have r: "prefix ''/'' urlPath" by (simp add: prefix_files_rooted)
  from m a st have h: "mux_Handler (mux p) urlPath = Route FileServerHandler"
    by (simp add: mux_Handler_files_canonical)
  let ?w = "finishRequest (http_Error new_response ''404 page not found'' StatusNotFound)"
  from a r st have "serve_files p urlPath = (p, Responded ?w)"
    by (simp add: serve_files_def FileServer_ServeHTTP_def serveFile_def)
  with h have "ServeHTTP p urlPath = (p, Static (Responded ?w))"
    by (simp add: ServeHTTP_def)
  moreover have "status ?w = 404" "body ?w = ''404 page not found'' @ [CHR 0x0A]"
    by (simp_all add: http_Error_new_response finishRequest_def StatusNotFound_def)
  ultimately show "\<exists>w. ServeHTTP p urlPath = (p, Static (Responded w)) \<and> status w = 404 \<and>
             body w = ''404 page not found'' @ [CHR 0x0A]"
    by blast
next
  assume m: "main fs Parse listenErr browserErr = Serving p \<and> prefix ''/files/'' urlPath"
    and a: "cleanPath urlPath = urlPath \<and> suffix ''/index.html'' urlPath"
  from m main_Serving_state have st: "mux p = main_mux" "CompiledFileSystem p = fs" by blast+
  from m have r: "prefix ''/'' urlPath" by (simp add: prefix_files_rooted)
  from m a st have h: "mux_Handler (mux p) urlPath = Route FileServerHandler"
    by (simp add: mux_Handler_files_canonical)
  let ?w = "finishRequest (localRedirect new_response ''./'')"
  from a r have "serve_files p urlPath = (p, Responded ?w)"
    by (simp add: serve_files_def FileServer_ServeHTTP_def serveFile_def)
  with h have "ServeHTTP p urlPath = (p, Static (Responded ?w))"
    by (simp add: ServeHTTP_def)
  moreover have "status ?w = 301" "handlerHeader ?w ''Location'' = Some ''./''" "body ?w = []"
    by (simp_all add: localRedirect_new_response finishRequest_def)
  ultimately show "\<exists>w. ServeHTTP p urlPath = (p, Static (Responded w)) \<and> status w = 301 \<and>
             handlerHeader w ''Location'' = Some ''./'' \<and> body w = []"
    by blast
next
  assume m: "main fs Parse listenErr browserErr = Serving p \<and> prefix ''/files/'' urlPath"
    and a: "cleanPath urlPath \<noteq> urlPath"
  from m main_Serving_state have st: "mux p = main_mux" by blast
  from mux_Handler_not_canonical [OF a] st
  show "ServeHTTP p urlPath
          = (p, Redirected (if cleanPath urlPath = ''/files'' then ''/files/''
                            else cleanPath urlPath))"
    by (simp add: ServeHTTP_def)
qed

theorem static_not_found_witness:
  "main template_only_fs text_parser None None = Serving serving_proc \<and>
   (prefix ''/files/'' ''/files/css/missing.css'' \<and>
    cleanPath ''/files/css/missing.css'' = ''/files/css/missing.css'' \<and>
    \<not> suffix ''/index.html'' ''/files/css/missing.css'' \<and>
    template_only_fs (path_Clean ''/files/css/missing.css'') = Inl ErrNotExist) \<and>
   (\<exists>w. ServeHTTP serving_proc ''/files/css/missing.css''
           = (serving_proc, Static (Responded w)) \<and> status w = 404 \<and>
         body w = ''404 page not found'' @ [CHR 0x0A]) \<and>
   (prefix ''/files/'' ''/files/index.html'' \<and>
    cleanPath ''/files/index.html'' = ''/files/index.html'' \<and>
    suffix ''/index.html'' ''/files/index.html'') \<and>
   (\<exists>w. ServeHTTP serving_proc ''/files/index.html''
           = (serving_proc, Static (Responded w)) \<and> status w = 301 \<and>
         handlerHeader w ''Location'' = Some ''./'' \<and> body w = []) \<and>
   (prefix ''/files/'' ''/files//css/missing.css'' \<and>
    cleanPath ''/files//css/missing.css'' \<noteq> ''/files//css/missing.css'') \<and>
   ServeHTTP serving_proc ''/files//css/missing.css''
     = (serving_proc, Redirected ''/files/css/missing.css'')"
proof -
  note m = main_serving
  have h1: "prefix ''/files/'' ''/files/css/missing.css'' \<and>
    cleanPath ''/files/css/missing.css'' = ''/files/css/missing.css'' \<and>
    \<not> suffix ''/index.html'' ''/files/css/missing.css'' \<and>
    template_only_fs (path_Clean ''/files/css/missing.css'') = Inl ErrNotExist"
    by (simp add: cleanPath_def path_Clean_def clean_step_def suffix_to_prefix
        template_only_fs_def)
  have h2: "prefix ''/files/'' ''/files/index.html'' \<and>
    cleanPath ''/files/index.html'' = ''/files/index.html'' \<and>
    suffix ''/index.html'' ''/files/index.html''"
    by (simp add: cleanPath_def path_Clean_def clean_step_def suffix_to_prefix)
  have c3: "cleanPath ''/files//css/missing.css'' = ''/files/css/missing.css''"
    by (simp add: cleanPath_def path_Clean_def clean_step_def suffix_to_prefix)
  then have h3: "prefix ''/files/'' ''/files//css/missing.css'' \<and>
    cleanPath ''/files//css/missing.css'' \<noteq> ''/files//css/missing.css''"
    by simp
  from static_not_found [of template_only_fs text_parser None None serving_proc
      "''/files/css/missing.css''"] m h1
  have r1: "\<exists>w. ServeHTTP serving_proc ''/files/css/missing.css''
           = (serving_proc, Static (Responded w)) \<and> status w = 404 \<and>
         body w = ''404 page not found'' @ [CHR 0x0A]"
    by blast
  from static_not_found [of template_only_fs text_parser None None serving_proc
      "''/files/index.html''"] m h2
  have r2: "\<exists>w. ServeHTTP serving_proc ''/files/index.html''
           = (serving_proc, Static (Responded w)) \<and> status w = 301 \<and>
         handlerHeader w ''Location'' = Some ''./'' \<and> body w = []"
    by blast
  from static_not_found [of template_only_fs text_parser None None serving_proc
      "''/files//css/missing.css''"] m h3
  have "ServeHTTP serving_proc ''/files//css/missing.css''
     = (serving_proc, Redirected (if cleanPath ''/files//css/missing.css'' = ''/files''
          then ''/files/'' else cleanPath ''/files//css/missing.css''))"
    by blast
  then have r3: "ServeHTTP serving_proc ''/files//css/missing.css''
     = (serving_proc, Redirected ''/files/css/missing.css'')"
    by (simp add: c3)
  from m h1 r1 h2 r2 h3 r3 show ?thesis by blast
qed

end
